theory Spec2Isabelle
  imports Main
begin

section \<open>The task model of \<open>task_manager/task.py\<close>\<close>

text \<open>
  The module defines two enumerations and one dataclass, \<open>Task\<close>, whose methods
  validate input and guard the status lifecycle. The embedding follows the source
  method by method.

  \<^item> A method mutates \<open>self\<close> and may raise. It is modelled as a function from the
    task before the call to a pair: what the call produced (\<open>Inl\<close> the exception,
    \<open>Inr\<close> the returned value) and the task as the call leaves it, also when it raised.
  \<^item> \<open>datetime.now()\<close> is an input of the environment: every method that reads the
    clock takes the value read as its argument \<open>now\<close>.
  \<^item> A \<open>datetime\<close> is a point on the (naive) time line, an integer number of
    microseconds; the source only compares datetimes and formats them.
  \<^item> \<open>datetime.isoformat\<close> belongs to the standard library; \<open>to_dict\<close> takes it
    as the parameter \<open>isoformat\<close>.
  \<^item> A \<open>str\<close> is a \<open>string\<close>, each character read as a code point below 256;
    strings with code points beyond that are not covered.
\<close>

subsection \<open>Exceptions\<close>

text \<open>
  \<open>ValidationError\<close> is the exception of the repository and carries its message.
  \<open>KeyError\<close> and \<open>ValueError\<close> are raised by the lookups of \<open>enum.Enum\<close>,
  \<open>AttributeError\<close> by reading \<open>.value\<close> of an object that has no such attribute.
\<close>

datatype error =
    ValidationError string
  | KeyError
  | ValueError
  | AttributeError

fun is_ValidationError :: "error \<Rightarrow> bool" where
  "is_ValidationError (ValidationError m) = True"
| "is_ValidationError KeyError = False"
| "is_ValidationError ValueError = False"
| "is_ValidationError AttributeError = False"

subsection \<open>Enumerations\<close>

datatype TaskStatus = PENDING | IN_PROGRESS | COMPLETED | CANCELLED


datatype TaskPriority = LOW | MEDIUM | HIGH | CRITICAL

text \<open>\<open>TaskPriority.value\<close>\<close>

fun TaskPriority_value :: "TaskPriority \<Rightarrow> int" where
  "TaskPriority_value LOW = 1"
| "TaskPriority_value MEDIUM = 2"
| "TaskPriority_value HIGH = 3"
| "TaskPriority_value CRITICAL = 4"

text \<open>\<open>TaskPriority.name\<close>\<close>

fun TaskPriority_name :: "TaskPriority \<Rightarrow> string" where
  "TaskPriority_name LOW = ''LOW''"
| "TaskPriority_name MEDIUM = ''MEDIUM''"
| "TaskPriority_name HIGH = ''HIGH''"
| "TaskPriority_name CRITICAL = ''CRITICAL''"

text \<open>\<open>TaskPriority[name]\<close>: lookup by member name, \<open>KeyError\<close> for any other key.\<close>

definition TaskPriority_getitem :: "string \<Rightarrow> error + TaskPriority" where
  "TaskPriority_getitem name =
     (if name = ''LOW'' then Inr LOW
      else if name = ''MEDIUM'' then Inr MEDIUM
      else if name = ''HIGH'' then Inr HIGH
      else if name = ''CRITICAL'' then Inr CRITICAL
      else Inl KeyError)"

text \<open>\<open>TaskPriority(value)\<close>: lookup by value, \<open>ValueError\<close> for any other value.\<close>

definition TaskPriority_call :: "int \<Rightarrow> error + TaskPriority" where
  "TaskPriority_call v =
     (if v = 1 then Inr LOW
      else if v = 2 then Inr MEDIUM
      else if v = 3 then Inr HIGH
      else if v = 4 then Inr CRITICAL
      else Inl ValueError)"

subsection \<open>Strings\<close>

text \<open>
  \<open>str.upper\<close>: the letters \<open>a\<close> to \<open>z\<close> go to \<open>A\<close> to \<open>Z\<close>. Python also changes
  the letters at code points \<open>0xB5\<close> and \<open>0xDF\<close> to \<open>0xFF\<close>; each of them goes to a
  letter outside ASCII or to \<open>SS\<close>, and neither occurs in a member name of
  \<open>TaskPriority\<close>, so the lookup by name that follows \<open>upper\<close> in the source gives
  the same result when they are left as they are.
\<close>

definition upper_char :: "char \<Rightarrow> char" where
  "upper_char c =
     (let n = (of_char c :: nat) in if 97 \<le> n \<and> n \<le> 122 then char_of (n - 32) else c)"

definition upper :: "string \<Rightarrow> string" where
  "upper s = map upper_char s"

text \<open>
  \<open>str.strip()\<close> removes leading and trailing whitespace. Below 256 the whitespace
  characters of Python are the code points 9 to 13, 28 to 32, 133 and 160.
\<close>

definition isspace :: "char \<Rightarrow> bool" where
  "isspace c =
     (let n = (of_char c :: nat) in (9 \<le> n \<and> n \<le> 13) \<or> (28 \<le> n \<and> n \<le> 32) \<or> n = 133 \<or> n = 160)"

definition strip :: "string \<Rightarrow> string" where
  "strip s = rev (dropWhile isspace (rev (dropWhile isspace s)))"

subsection \<open>The dataclass\<close>

type_synonym datetime = int

text \<open>
  The field \<open>priority\<close> is declared \<open>Union[TaskPriority, int, str, None]\<close>: until
  \<open>__post_init__\<close> has run it holds whatever the caller gave.
\<close>

datatype priority_field =
    PEnum TaskPriority
  | PInt int
  | PStr string
  | PNone

record Task =
  task_id :: int
  title :: string
  description :: string
  status :: TaskStatus
  priority :: priority_field
  created_at :: datetime
  updated_at :: datetime
  due_date :: "datetime option"

type_synonym 'a outcome = "(error + 'a) \<times> Task"

subsection \<open>Validation and construction\<close>

text \<open>\<open>validate\<close>: four checks in the order of the source; it assigns nothing.\<close>

definition validate :: "Task \<Rightarrow> unit outcome" where
  "validate self =
     (if title self = [] \<or> length (strip (title self)) = 0 then
        (Inl (ValidationError ''Title cannot be empty''), self)
      else if length (title self) > 200 then
        (Inl (ValidationError ''Title cannot exceed 200 characters''), self)
      else if task_id self < 0 then
        (Inl (ValidationError ''Task ID must be non-negative''), self)
      else if (case due_date self of None \<Rightarrow> False | Some d \<Rightarrow> d < created_at self) then
        (Inl (ValidationError ''Due date cannot be before creation date''), self)
      else (Inr (), self))"

text \<open>
  \<open>__post_init__\<close>: the priority is normalised, then the task validated. A failed
  lookup raises before the assignment to \<open>self.priority\<close>.
\<close>

definition post_init :: "Task \<Rightarrow> unit outcome" where
  "post_init self =
     (case priority self of
        PStr s \<Rightarrow>
          (case TaskPriority_getitem (upper s) of
             Inl e \<Rightarrow> (Inl e, self)
           | Inr p \<Rightarrow> validate (self\<lparr>priority := PEnum p\<rparr>))
      | PInt i \<Rightarrow>
          (case TaskPriority_call i of
             Inl e \<Rightarrow> (Inl e, self)
           | Inr p \<Rightarrow> validate (self\<lparr>priority := PEnum p\<rparr>))
      | PNone \<Rightarrow> validate (self\<lparr>priority := PEnum MEDIUM\<rparr>)
      | PEnum p \<Rightarrow> validate self)"

text \<open>
  The constructor the dataclass generates: it stores the eight fields and calls
  \<open>__post_init__\<close>. The caller gets the object only when that call returns. The
  defaults of the source (\<open>description = ""\<close>, \<open>status = PENDING\<close>,
  \<open>priority = MEDIUM\<close>, both timestamps \<open>datetime.now()\<close>, \<open>due_date = None\<close>)
  are values the caller of the model passes.
\<close>

definition Task_init ::
  "int \<Rightarrow> string \<Rightarrow> string \<Rightarrow> TaskStatus \<Rightarrow> priority_field \<Rightarrow> datetime \<Rightarrow> datetime
     \<Rightarrow> datetime option \<Rightarrow> error + Task" where
  "Task_init tid ttl descr st prio created updated due =
     (case post_init \<lparr>task_id = tid, title = ttl, description = descr, status = st,
                      priority = prio, created_at = created, updated_at = updated,
                      due_date = due\<rparr> of
        (Inl e, self) \<Rightarrow> Inl e
      | (Inr u, self) \<Rightarrow> Inr self)"

subsection \<open>Status transitions\<close>

definition mark_in_progress :: "datetime \<Rightarrow> Task \<Rightarrow> unit outcome" where
  "mark_in_progress now self =
     (if status self = COMPLETED then
        (Inl (ValidationError ''Cannot modify a completed task''), self)
      else if status self = CANCELLED then
        (Inl (ValidationError ''Cannot modify a cancelled task''), self)
      else (Inr (), self\<lparr>status := IN_PROGRESS, updated_at := now\<rparr>))"

definition mark_completed :: "datetime \<Rightarrow> Task \<Rightarrow> unit outcome" where
  "mark_completed now self =
     (if status self = CANCELLED then
        (Inl (ValidationError ''Cannot complete a cancelled task''), self)
      else (Inr (), self\<lparr>status := COMPLETED, updated_at := now\<rparr>))"

definition mark_cancelled :: "datetime \<Rightarrow> Task \<Rightarrow> unit outcome" where
  "mark_cancelled now self =
     (if status self = COMPLETED then
        (Inl (ValidationError ''Cannot cancel a completed task''), self)
      else (Inr (), self\<lparr>status := CANCELLED, updated_at := now\<rparr>))"

subsection \<open>Field updates\<close>

definition update_title :: "string \<Rightarrow> datetime \<Rightarrow> Task \<Rightarrow> unit outcome" where
  "update_title new_title now self =
     (if new_title = [] \<or> length (strip new_title) = 0 then
        (Inl (ValidationError ''Title cannot be empty''), self)
      else if length new_title > 200 then
        (Inl (ValidationError ''Title cannot exceed 200 characters''), self)
      else (Inr (), self\<lparr>title := new_title, updated_at := now\<rparr>))"

definition update_description :: "string \<Rightarrow> datetime \<Rightarrow> Task \<Rightarrow> unit outcome" where
  "update_description new_description now self =
     (Inr (), self\<lparr>description := new_description, updated_at := now\<rparr>)"

text \<open>
  \<open>set_priority\<close>: a string and an integer are looked up, anything else is stored
  as it is. A failed lookup raises before either assignment.
\<close>

definition set_priority :: "priority_field \<Rightarrow> datetime \<Rightarrow> Task \<Rightarrow> unit outcome" where
  "set_priority prio now self =
     (case prio of
        PStr s \<Rightarrow>
          (case TaskPriority_getitem (upper s) of
             Inl e \<Rightarrow> (Inl e, self)
           | Inr p \<Rightarrow> (Inr (), self\<lparr>priority := PEnum p, updated_at := now\<rparr>))
      | PInt i \<Rightarrow>
          (case TaskPriority_call i of
             Inl e \<Rightarrow> (Inl e, self)
           | Inr p \<Rightarrow> (Inr (), self\<lparr>priority := PEnum p, updated_at := now\<rparr>))
      | PEnum p \<Rightarrow> (Inr (), self\<lparr>priority := PEnum p, updated_at := now\<rparr>)
      | PNone \<Rightarrow> (Inr (), self\<lparr>priority := PNone, updated_at := now\<rparr>))"

subsection \<open>Queries\<close>






subsection \<open>Vocabulary of the properties\<close>

text \<open>The call raised \<open>ValidationError\<close> (with whatever message).\<close>

definition raised_ValidationError :: "error + 'a \<Rightarrow> bool" where
  "raised_ValidationError r = (case r of Inl e \<Rightarrow> is_ValidationError e | Inr v \<Rightarrow> False)"

text \<open>
  The three invariants of a task on the arguments of the constructor: the title is not
  empty once trimmed and has at most 200 characters, the identifier is not negative,
  a due date does not precede the creation date.
\<close>

definition fields_valid :: "int \<Rightarrow> string \<Rightarrow> datetime \<Rightarrow> datetime option \<Rightarrow> bool" where
  "fields_valid tid ttl created due =
     (strip ttl \<noteq> [] \<and> length ttl \<le> 200 \<and> 0 \<le> tid \<and>
      (case due of None \<Rightarrow> True | Some d \<Rightarrow> created \<le> d))"

text \<open>
  A priority argument that names a priority: a member, \<open>None\<close>, one of the codes 1 to
  4, or a string that is a member name up to the case of its letters.
\<close>

fun priority_accepted :: "priority_field \<Rightarrow> bool" where
  "priority_accepted (PEnum p) = True"
| "priority_accepted (PInt i) = (i \<in> {1, 2, 3, 4})"
| "priority_accepted (PStr s) = (upper s \<in> {''LOW'', ''MEDIUM'', ''HIGH'', ''CRITICAL''})"
| "priority_accepted PNone = True"


text \<open>The task of the concrete evaluations, up to its status, priority and due date.\<close>

abbreviation example_task :: "TaskStatus \<Rightarrow> priority_field \<Rightarrow> datetime option \<Rightarrow> Task" where
  "example_task st prio due \<equiv>
     \<lparr>task_id = 1, title = ''Write spec'', description = [], status = st, priority = prio,
      created_at = 0, updated_at = 0, due_date = due\<rparr>"

section \<open>Auxiliary facts\<close>

lemma upper_high: "upper ''high'' = ''HIGH''"
  by code_simp

lemma upper_HIGH: "upper ''HIGH'' = ''HIGH''"
  by code_simp

lemma upper_urgent: "upper ''urgent'' = ''URGENT''"
  by code_simp

lemma upper_low: "upper ''low'' = ''LOW''"
  by code_simp

lemma upper_Medium: "upper ''Medium'' = ''MEDIUM''"
  by code_simp

lemma upper_cRiTiCaL: "upper ''cRiTiCaL'' = ''CRITICAL''"
  by code_simp

text \<open>Each member is found under its own name and under its own value.\<close>

lemma TaskPriority_getitem_name: "TaskPriority_getitem (TaskPriority_name p) = Inr p"
  by (cases p) (simp_all add: TaskPriority_getitem_def)

lemma TaskPriority_call_value: "TaskPriority_call (TaskPriority_value p) = Inr p"
  by (cases p) (simp_all add: TaskPriority_call_def)

lemma strip_Nil [simp]: "strip [] = []"
  by (simp add: strip_def)

lemma dropWhile_all_iff: "(\<forall>x \<in> set (dropWhile P xs). P x) \<longleftrightarrow> (\<forall>x \<in> set xs. P x)"
proof
  assume d: "\<forall>x \<in> set (dropWhile P xs). P x"
  have "set xs = set (takeWhile P xs) \<union> set (dropWhile P xs)"
    by (metis set_append takeWhile_dropWhile_id)
  with d show "\<forall>x \<in> set xs. P x"
    by (auto dest: set_takeWhileD)
next
  assume "\<forall>x \<in> set xs. P x"
  then show "\<forall>x \<in> set (dropWhile P xs). P x"
    by (auto dest: set_dropWhileD)
qed

text \<open>Trimming leaves nothing exactly when every character is whitespace.\<close>

lemma strip_Nil_iff: "strip s = [] \<longleftrightarrow> (\<forall>c \<in> set s. isspace c)"
  by (simp add: strip_def dropWhile_all_iff)

lemma strip_example: "strip ''Write spec'' = ''Write spec''"
  by code_simp

lemma strip_blank: "strip ''   '' = []"
  by code_simp

lemma validate_valid:
  "fields_valid (task_id t) (title t) (created_at t) (due_date t) \<Longrightarrow> validate t = (Inr (), t)"
  by (auto simp: validate_def fields_valid_def split: option.splits)

lemma Task_init_enum:
  "Task_init tid ttl descr st (PEnum p) c u due =
     (case validate \<lparr>task_id = tid, title = ttl, description = descr, status = st,
                      priority = PEnum p, created_at = c, updated_at = u, due_date = due\<rparr> of
        (Inl e, self) \<Rightarrow> Inl e | (Inr v, self) \<Rightarrow> Inr self)"
  by (simp add: Task_init_def post_init_def)

lemma Task_init_valid:
  "fields_valid tid ttl c due \<Longrightarrow>
     Task_init tid ttl descr st (PEnum p) c u due =
       Inr \<lparr>task_id = tid, title = ttl, description = descr, status = st,
            priority = PEnum p, created_at = c, updated_at = u, due_date = due\<rparr>"
  by (simp add: Task_init_enum validate_valid)

lemma Task_init_PNone:
  "Task_init tid ttl descr st PNone c u due = Task_init tid ttl descr st (PEnum MEDIUM) c u due"
  by (simp add: Task_init_def post_init_def)

lemma Task_init_PStr:
  "TaskPriority_getitem (upper s) = Inr p \<Longrightarrow>
     Task_init tid ttl descr st (PStr s) c u due = Task_init tid ttl descr st (PEnum p) c u due"
  by (simp add: Task_init_def post_init_def)

lemma Task_init_PInt:
  "TaskPriority_call i = Inr p \<Longrightarrow>
     Task_init tid ttl descr st (PInt i) c u due = Task_init tid ttl descr st (PEnum p) c u due"
  by (simp add: Task_init_def post_init_def)

text \<open>
  The comment of \<open>__post_init__\<close>: once it has returned, the priority is a member of
  \<open>TaskPriority\<close>.
\<close>

lemma Task_init_priority_member:
  "Task_init tid ttl descr st prio c u due = Inr t \<Longrightarrow> \<exists>p. priority t = PEnum p"
  by (auto simp: Task_init_def post_init_def validate_def
      split: priority_field.splits sum.splits if_splits)

text \<open>The status given to the constructor is stored and not looked at.\<close>

lemma Task_init_status:
  "Task_init tid ttl descr st' prio c u due =
     map_sum id (\<lambda>t. t\<lparr>status := st'\<rparr>) (Task_init tid ttl descr st prio c u due)"
  by (simp add: Task_init_def post_init_def validate_def
      split: priority_field.splits sum.splits option.splits)




section \<open>The claims\<close>

subsection \<open>Status transitions\<close>

text \<open>
  C1. For every task, \<open>mark_in_progress\<close> raises \<open>ValidationError\<close> exactly when the
  status is COMPLETED or CANCELLED, \<open>mark_completed\<close> exactly when it is CANCELLED,
  \<open>mark_cancelled\<close> exactly when it is COMPLETED. A call that does not raise returns,
  and the status is then the target of the operation: IN_PROGRESS, COMPLETED,
  CANCELLED respectively.
\<close>

theorem transition_guards:
  "(raised_ValidationError (fst (mark_in_progress now t)) \<longleftrightarrow>
      status t = COMPLETED \<or> status t = CANCELLED)
   \<and> (raised_ValidationError (fst (mark_completed now t)) \<longleftrightarrow> status t = CANCELLED)
   \<and> (raised_ValidationError (fst (mark_cancelled now t)) \<longleftrightarrow> status t = COMPLETED)
   \<and> (\<not> raised_ValidationError (fst (mark_in_progress now t)) \<longrightarrow>
        fst (mark_in_progress now t) = Inr () \<and>
        status (snd (mark_in_progress now t)) = IN_PROGRESS)
   \<and> (\<not> raised_ValidationError (fst (mark_completed now t)) \<longrightarrow>
        fst (mark_completed now t) = Inr () \<and>
        status (snd (mark_completed now t)) = COMPLETED)
   \<and> (\<not> raised_ValidationError (fst (mark_cancelled now t)) \<longrightarrow>
        fst (mark_cancelled now t) = Inr () \<and>
        status (snd (mark_cancelled now t)) = CANCELLED)"
  by (simp add: mark_in_progress_def mark_completed_def mark_cancelled_def
      raised_ValidationError_def)

theorem transition_guards_witness:
  "raised_ValidationError (fst (mark_in_progress 5 (example_task COMPLETED (PEnum MEDIUM) None)))
   \<and> raised_ValidationError (fst (mark_cancelled 5 (example_task COMPLETED (PEnum MEDIUM) None)))
   \<and> raised_ValidationError (fst (mark_completed 5 (example_task CANCELLED (PEnum MEDIUM) None)))
   \<and> fst (mark_in_progress 5 (example_task PENDING (PEnum MEDIUM) None)) = Inr ()
   \<and> status (snd (mark_in_progress 5 (example_task PENDING (PEnum MEDIUM) None))) = IN_PROGRESS
   \<and> status (snd (mark_completed 5 (example_task PENDING (PEnum MEDIUM) None))) = COMPLETED
   \<and> status (snd (mark_cancelled 5 (example_task PENDING (PEnum MEDIUM) None))) = CANCELLED"
  using transition_guards [where now = 5 and t = "example_task COMPLETED (PEnum MEDIUM) None"]
    transition_guards [where now = 5 and t = "example_task CANCELLED (PEnum MEDIUM) None"]
    transition_guards [where now = 5 and t = "example_task PENDING (PEnum MEDIUM) None"]
  by simp

text \<open>
  C2. When \<open>mark_in_progress\<close>, \<open>mark_completed\<close> or \<open>mark_cancelled\<close> raises
  \<open>ValidationError\<close>, the task after the call is the task before it, in every field.
\<close>

theorem transition_failure_unchanged:
  "(raised_ValidationError (fst (mark_in_progress now t)) \<longrightarrow> snd (mark_in_progress now t) = t)
   \<and> (raised_ValidationError (fst (mark_completed now t)) \<longrightarrow> snd (mark_completed now t) = t)
   \<and> (raised_ValidationError (fst (mark_cancelled now t)) \<longrightarrow> snd (mark_cancelled now t) = t)"
  by (simp add: mark_in_progress_def mark_completed_def mark_cancelled_def
      raised_ValidationError_def)

theorem transition_failure_unchanged_witness:
  "snd (mark_in_progress 5 (example_task COMPLETED (PEnum MEDIUM) None)) =
     example_task COMPLETED (PEnum MEDIUM) None
   \<and> snd (mark_cancelled 5 (example_task COMPLETED (PEnum MEDIUM) None)) =
     example_task COMPLETED (PEnum MEDIUM) None
   \<and> snd (mark_completed 5 (example_task CANCELLED (PEnum MEDIUM) None)) =
     example_task CANCELLED (PEnum MEDIUM) None"
proof -
  have "raised_ValidationError (fst (mark_in_progress 5 (example_task COMPLETED (PEnum MEDIUM) None)))"
    and "raised_ValidationError (fst (mark_cancelled 5 (example_task COMPLETED (PEnum MEDIUM) None)))"
    and "raised_ValidationError (fst (mark_completed 5 (example_task CANCELLED (PEnum MEDIUM) None)))"
    by (simp_all add: mark_in_progress_def mark_completed_def mark_cancelled_def
        raised_ValidationError_def)
  then show ?thesis
    using transition_failure_unchanged
        [where now = 5 and t = "example_task COMPLETED (PEnum MEDIUM) None"]
      transition_failure_unchanged
        [where now = 5 and t = "example_task CANCELLED (PEnum MEDIUM) None"]
    by blast
qed

text \<open>
  C8, as the source has it. On a task that is already COMPLETED, \<open>mark_completed\<close>
  returns without an error and the status stays COMPLETED, but the call is not without
  effect: \<open>updated_at\<close> is set to the current time, as after every transition. No
  other field changes.
\<close>

theorem mark_completed_again:
  "status t = COMPLETED \<longrightarrow> mark_completed now t = (Inr (), t\<lparr>updated_at := now\<rparr>)"
  by (simp add: mark_completed_def)

theorem mark_completed_again_witness:
  "mark_completed 1 (example_task COMPLETED (PEnum MEDIUM) None) =
     (Inr (), \<lparr>task_id = 1, title = ''Write spec'', description = [], status = COMPLETED,
               priority = PEnum MEDIUM, created_at = 0, updated_at = 1, due_date = None\<rparr>)"
  using mark_completed_again [where now = 1 and t = "example_task COMPLETED (PEnum MEDIUM) None"]
  by simp

text \<open>
  C8 as stated fails: the task below is COMPLETED with \<open>updated_at = 0\<close>;
  \<open>mark_completed\<close> at time 1 returns, and the task it leaves is another one.
\<close>

theorem mark_completed_again_counterexample:
  "status (example_task COMPLETED (PEnum MEDIUM) None) = COMPLETED
   \<and> fst (mark_completed 1 (example_task COMPLETED (PEnum MEDIUM) None)) = Inr ()
   \<and> updated_at (snd (mark_completed 1 (example_task COMPLETED (PEnum MEDIUM) None))) = 1
   \<and> snd (mark_completed 1 (example_task COMPLETED (PEnum MEDIUM) None))
       \<noteq> example_task COMPLETED (PEnum MEDIUM) None"
  by (simp add: mark_completed_def)

subsection \<open>Priority normalisation\<close>

text \<open>
  C3, as the source has it. The constructor fails for every string whose upper-case
  form is not a member name, and for every integer that is not one of the codes 1, 2,
  3, 4, whatever the other arguments are. The exception is the one the enumeration
  raises: \<open>KeyError\<close> for the string, \<open>ValueError\<close> for the integer.
\<close>

theorem priority_lookup_failure:
  "(upper s \<notin> {''LOW'', ''MEDIUM'', ''HIGH'', ''CRITICAL''} \<longrightarrow>
      Task_init tid ttl descr st (PStr s) c u due = Inl KeyError)
   \<and> (i \<notin> {1, 2, 3, 4} \<longrightarrow>
      Task_init tid ttl descr st (PInt i) c u due = Inl ValueError)"
  by (simp add: Task_init_def post_init_def TaskPriority_getitem_def TaskPriority_call_def)

theorem priority_lookup_failure_witness:
  "Task_init 1 ''Write spec'' [] PENDING (PStr ''urgent'') 0 0 None = Inl KeyError
   \<and> Task_init 1 ''Write spec'' [] PENDING (PInt 7) 0 0 None = Inl ValueError"
  using priority_lookup_failure [where s = "''urgent''" and i = 7 and tid = 1
      and ttl = "''Write spec''" and descr = "[]" and st = PENDING and c = 0 and u = 0
      and due = None]
  by (simp add: upper_urgent)

text \<open>
  C3 as stated fails: \<open>urgent\<close> is no priority name and 7 no priority code, and for
  neither the constructor raises \<open>ValidationError\<close>.
\<close>

theorem priority_lookup_counterexample:
  "upper ''urgent'' \<notin> {''LOW'', ''MEDIUM'', ''HIGH'', ''CRITICAL''}
   \<and> \<not> raised_ValidationError (Task_init 1 ''Write spec'' [] PENDING (PStr ''urgent'') 0 0 None)
   \<and> (7::int) \<notin> {1, 2, 3, 4}
   \<and> \<not> raised_ValidationError (Task_init 1 ''Write spec'' [] PENDING (PInt 7) 0 0 None)"
  by (simp add: upper_urgent Task_init_def post_init_def TaskPriority_getitem_def
      TaskPriority_call_def raised_ValidationError_def)

text \<open>
  C7. The result of the constructor does not depend on how the priority is written.
  For every member of \<open>TaskPriority\<close>, the constructor gives the same result for a
  string that is the member's name up to the case of its letters, for the member's
  integer code, and for the member itself, the other arguments being the same; so it
  does for \<open>"high"\<close>, \<open>"HIGH"\<close>, \<open>3\<close> and \<open>TaskPriority.HIGH\<close>. For \<open>None\<close> it
  gives the result it gives for \<open>TaskPriority.MEDIUM\<close>. When the other arguments are
  valid that result is the task with the arguments as its fields and that member as
  its priority: HIGH for the four ways of writing HIGH, MEDIUM for \<open>None\<close>.
\<close>

theorem priority_normalization:
  "(\<forall>p s. upper s = TaskPriority_name p \<longrightarrow>
       Task_init tid ttl descr st (PStr s) c u due =
         Task_init tid ttl descr st (PEnum p) c u due)
   \<and> (\<forall>p. Task_init tid ttl descr st (PInt (TaskPriority_value p)) c u due =
         Task_init tid ttl descr st (PEnum p) c u due)
   \<and> Task_init tid ttl descr st (PStr ''high'') c u due =
     Task_init tid ttl descr st (PEnum HIGH) c u due
   \<and> Task_init tid ttl descr st (PStr ''HIGH'') c u due =
     Task_init tid ttl descr st (PEnum HIGH) c u due
   \<and> Task_init tid ttl descr st (PInt 3) c u due =
     Task_init tid ttl descr st (PEnum HIGH) c u due
   \<and> Task_init tid ttl descr st PNone c u due =
     Task_init tid ttl descr st (PEnum MEDIUM) c u due
   \<and> (fields_valid tid ttl c due \<longrightarrow>
        (\<forall>p. Task_init tid ttl descr st (PEnum p) c u due =
           Inr \<lparr>task_id = tid, title = ttl, description = descr, status = st,
                priority = PEnum p, created_at = c, updated_at = u, due_date = due\<rparr>)
        \<and> Task_init tid ttl descr st (PEnum HIGH) c u due =
          Inr \<lparr>task_id = tid, title = ttl, description = descr, status = st,
               priority = PEnum HIGH, created_at = c, updated_at = u, due_date = due\<rparr>
        \<and> Task_init tid ttl descr st (PEnum MEDIUM) c u due =
          Inr \<lparr>task_id = tid, title = ttl, description = descr, status = st,
               priority = PEnum MEDIUM, created_at = c, updated_at = u, due_date = due\<rparr>)"
proof (intro conjI allI impI)
  fix p s
  assume "upper s = TaskPriority_name p"
  then have "TaskPriority_getitem (upper s) = Inr p"
    by (simp add: TaskPriority_getitem_name)
  then show "Task_init tid ttl descr st (PStr s) c u due =
      Task_init tid ttl descr st (PEnum p) c u due"
    by (rule Task_init_PStr)
next
  fix p
  show "Task_init tid ttl descr st (PInt (TaskPriority_value p)) c u due =
      Task_init tid ttl descr st (PEnum p) c u due"
    by (rule Task_init_PInt) (rule TaskPriority_call_value)
next
  show "Task_init tid ttl descr st (PStr ''high'') c u due =
      Task_init tid ttl descr st (PEnum HIGH) c u due"
    by (rule Task_init_PStr) (simp add: upper_high TaskPriority_getitem_def)
next
  show "Task_init tid ttl descr st (PStr ''HIGH'') c u due =
      Task_init tid ttl descr st (PEnum HIGH) c u due"
    by (rule Task_init_PStr) (simp add: upper_HIGH TaskPriority_getitem_def)
next
  show "Task_init tid ttl descr st (PInt 3) c u due =
      Task_init tid ttl descr st (PEnum HIGH) c u due"
    by (rule Task_init_PInt) (simp add: TaskPriority_call_def)
next
  show "Task_init tid ttl descr st PNone c u due =
      Task_init tid ttl descr st (PEnum MEDIUM) c u due"
    by (rule Task_init_PNone)
qed (simp_all add: Task_init_valid)

theorem priority_normalization_witness:
  "fields_valid 1 ''Write spec'' 0 None
   \<and> Task_init 1 ''Write spec'' [] PENDING (PStr ''high'') 0 0 None =
       Inr (example_task PENDING (PEnum HIGH) None)
   \<and> Task_init 1 ''Write spec'' [] PENDING (PStr ''HIGH'') 0 0 None =
       Inr (example_task PENDING (PEnum HIGH) None)
   \<and> Task_init 1 ''Write spec'' [] PENDING (PInt 3) 0 0 None =
       Inr (example_task PENDING (PEnum HIGH) None)
   \<and> Task_init 1 ''Write spec'' [] PENDING (PEnum HIGH) 0 0 None =
       Inr (example_task PENDING (PEnum HIGH) None)
   \<and> Task_init 1 ''Write spec'' [] PENDING PNone 0 0 None =
       Inr (example_task PENDING (PEnum MEDIUM) None)
   \<and> upper ''low'' = TaskPriority_name LOW
   \<and> Task_init 1 ''Write spec'' [] PENDING (PStr ''low'') 0 0 None =
       Inr (example_task PENDING (PEnum LOW) None)
   \<and> Task_init 1 ''Write spec'' [] PENDING (PInt 1) 0 0 None =
       Inr (example_task PENDING (PEnum LOW) None)
   \<and> upper ''Medium'' = TaskPriority_name MEDIUM
   \<and> Task_init 1 ''Write spec'' [] PENDING (PStr ''Medium'') 0 0 None =
       Inr (example_task PENDING (PEnum MEDIUM) None)
   \<and> Task_init 1 ''Write spec'' [] PENDING (PInt 2) 0 0 None =
       Inr (example_task PENDING (PEnum MEDIUM) None)
   \<and> upper ''cRiTiCaL'' = TaskPriority_name CRITICAL
   \<and> Task_init 1 ''Write spec'' [] PENDING (PStr ''cRiTiCaL'') 0 0 None =
       Inr (example_task PENDING (PEnum CRITICAL) None)
   \<and> Task_init 1 ''Write spec'' [] PENDING (PInt 4) 0 0 None =
       Inr (example_task PENDING (PEnum CRITICAL) None)"
proof -
  note n = priority_normalization [where tid = 1 and ttl = "''Write spec''" and descr = "[]"
      and st = PENDING and c = 0 and u = 0 and due = None]
  have v: "fields_valid 1 ''Write spec'' 0 None"
    by (simp add: fields_valid_def strip_example)
  have names: "upper ''low'' = TaskPriority_name LOW"
    "upper ''Medium'' = TaskPriority_name MEDIUM"
    "upper ''cRiTiCaL'' = TaskPriority_name CRITICAL"
    by (simp_all add: upper_low upper_Medium upper_cRiTiCaL)
  from n have by_name: "\<And>p s. upper s = TaskPriority_name p \<Longrightarrow>
      Task_init 1 ''Write spec'' [] PENDING (PStr s) 0 0 None =
        Task_init 1 ''Write spec'' [] PENDING (PEnum p) 0 0 None"
    by blast
  from n have by_value: "\<And>p. Task_init 1 ''Write spec'' [] PENDING (PInt (TaskPriority_value p)) 0 0 None =
        Task_init 1 ''Write spec'' [] PENDING (PEnum p) 0 0 None"
    by blast
  from n v have member: "\<And>p. Task_init 1 ''Write spec'' [] PENDING (PEnum p) 0 0 None =
        Inr (example_task PENDING (PEnum p) None)"
    by blast
  from n have fixed:
    "Task_init 1 ''Write spec'' [] PENDING (PStr ''high'') 0 0 None =
       Task_init 1 ''Write spec'' [] PENDING (PEnum HIGH) 0 0 None"
    "Task_init 1 ''Write spec'' [] PENDING (PStr ''HIGH'') 0 0 None =
       Task_init 1 ''Write spec'' [] PENDING (PEnum HIGH) 0 0 None"
    "Task_init 1 ''Write spec'' [] PENDING (PInt 3) 0 0 None =
       Task_init 1 ''Write spec'' [] PENDING (PEnum HIGH) 0 0 None"
    "Task_init 1 ''Write spec'' [] PENDING PNone 0 0 None =
       Task_init 1 ''Write spec'' [] PENDING (PEnum MEDIUM) 0 0 None"
    by blast+
  show ?thesis
    using v names fixed member
      by_name [OF names(1)] by_name [OF names(2)] by_name [OF names(3)]
      by_value [of LOW] by_value [of MEDIUM] by_value [of CRITICAL]
    by simp
qed

text \<open>
  C9. \<open>set_priority(None)\<close> looks nothing up: it stores \<open>None\<close> in the priority
  field and sets \<open>updated_at\<close> to the current time, and returns. The priority of the
  task is then none of the four members of \<open>TaskPriority\<close>. The constructor, given
  \<open>None\<close>, does what it does given MEDIUM.
\<close>

theorem set_priority_None:
  "set_priority PNone now t = (Inr (), t\<lparr>priority := PNone, updated_at := now\<rparr>)
   \<and> (\<forall>p. priority (snd (set_priority PNone now t)) \<noteq> PEnum p)
   \<and> Task_init tid ttl descr st PNone c u due =
       Task_init tid ttl descr st (PEnum MEDIUM) c u due"
  by (simp add: set_priority_def Task_init_PNone)

theorem set_priority_None_witness:
  "set_priority PNone 1 (example_task PENDING (PEnum HIGH) None) =
     (Inr (), \<lparr>task_id = 1, title = ''Write spec'', description = [], status = PENDING,
               priority = PNone, created_at = 0, updated_at = 1, due_date = None\<rparr>)
   \<and> Task_init 1 ''Write spec'' [] PENDING PNone 0 0 None =
       Inr (example_task PENDING (PEnum MEDIUM) None)"
  using set_priority_None [where now = 1 and t = "example_task PENDING (PEnum HIGH) None"
      and tid = 1 and ttl = "''Write spec''" and descr = "[]" and st = PENDING and c = 0
      and u = 0 and due = None]
  by (simp add: Task_init_valid fields_valid_def strip_example)

subsection \<open>Construction\<close>

text \<open>
  C10. The constructor does not look at the status. Given a valid identifier, title
  and due date and a priority that names a priority, it returns the task with the
  status it was given, whichever of the four that is; and whether it raises, and
  what, is the same for every status.
\<close>

theorem constructor_any_status:
  "(fields_valid tid ttl c due \<and> priority_accepted prio \<longrightarrow>
      (\<exists>p. Task_init tid ttl descr st prio c u due =
         Inr \<lparr>task_id = tid, title = ttl, description = descr, status = st,
              priority = PEnum p, created_at = c, updated_at = u, due_date = due\<rparr>))
   \<and> (Task_init tid ttl descr st prio c u due = Inl e \<longleftrightarrow>
        Task_init tid ttl descr st' prio c u due = Inl e)"
proof (intro conjI impI)
  assume a: "fields_valid tid ttl c due \<and> priority_accepted prio"
  show "\<exists>p. Task_init tid ttl descr st prio c u due =
         Inr \<lparr>task_id = tid, title = ttl, description = descr, status = st,
              priority = PEnum p, created_at = c, updated_at = u, due_date = due\<rparr>"
  proof (cases prio)
    case (PEnum p)
    with a show ?thesis by (simp add: Task_init_valid)
  next
    case (PInt i)
    with a obtain p where "TaskPriority_call i = Inr p"
      by (auto simp: TaskPriority_call_def)
    with a PInt show ?thesis by (simp add: Task_init_PInt Task_init_valid)
  next
    case (PStr s)
    with a obtain p where "TaskPriority_getitem (upper s) = Inr p"
      by (auto simp: TaskPriority_getitem_def)
    with a PStr show ?thesis by (simp add: Task_init_PStr Task_init_valid)
  next
    case PNone
    with a show ?thesis by (simp add: Task_init_PNone Task_init_valid)
  qed
next
  show "Task_init tid ttl descr st prio c u due = Inl e \<longleftrightarrow>
        Task_init tid ttl descr st' prio c u due = Inl e"
    by (cases "Task_init tid ttl descr st prio c u due")
      (simp_all add: Task_init_status [of tid ttl descr st' prio c u due st])
qed

theorem constructor_any_status_witness:
  "fields_valid 1 ''Write spec'' 0 (Some 4) \<and> priority_accepted (PStr ''high'')
   \<and> Task_init 1 ''Write spec'' [] IN_PROGRESS (PStr ''high'') 0 0 (Some 4) =
       Inr (example_task IN_PROGRESS (PEnum HIGH) (Some 4))
   \<and> Task_init 1 ''Write spec'' [] COMPLETED (PStr ''high'') 0 0 (Some 4) =
       Inr (example_task COMPLETED (PEnum HIGH) (Some 4))
   \<and> Task_init 1 ''Write spec'' [] CANCELLED (PStr ''high'') 0 0 (Some 4) =
       Inr (example_task CANCELLED (PEnum HIGH) (Some 4))"
proof -
  have v: "fields_valid 1 ''Write spec'' 0 (Some 4) \<and> priority_accepted (PStr ''high'')"
    by (simp add: fields_valid_def strip_example upper_high)
  have h: "TaskPriority_getitem (upper ''high'') = Inr HIGH"
    by (simp add: upper_high TaskPriority_getitem_def)
  show ?thesis
    using v
      constructor_any_status [where tid = 1 and ttl = "''Write spec''" and descr = "[]"
        and st = IN_PROGRESS and prio = "PStr ''high''" and c = 0 and u = 0 and due = "Some 4"]
      constructor_any_status [where tid = 1 and ttl = "''Write spec''" and descr = "[]"
        and st = COMPLETED and prio = "PStr ''high''" and c = 0 and u = 0 and due = "Some 4"]
      constructor_any_status [where tid = 1 and ttl = "''Write spec''" and descr = "[]"
        and st = CANCELLED and prio = "PStr ''high''" and c = 0 and u = 0 and due = "Some 4"]
    by (simp add: Task_init_PStr [OF h] Task_init_valid)
qed

subsection \<open>Updating the title\<close>

text \<open>
  C4. For a title that is empty once trimmed (empty, or whitespace only) or longer
  than 200 characters, \<open>update_title\<close> raises \<open>ValidationError\<close> and the task is
  as before the call. For every other title it returns, having set the title to the
  new value and \<open>updated_at\<close> to the current time and nothing else.
\<close>

theorem update_title_guard:
  "(strip new_title = [] \<or> length new_title > 200 \<longrightarrow>
      raised_ValidationError (fst (update_title new_title now t)) \<and>
      snd (update_title new_title now t) = t)
   \<and> (\<not> (strip new_title = [] \<or> length new_title > 200) \<longrightarrow>
      update_title new_title now t = (Inr (), t\<lparr>title := new_title, updated_at := now\<rparr>))"
  by (auto simp: update_title_def raised_ValidationError_def)

theorem update_title_guard_witness:
  "strip ''   '' = []
   \<and> raised_ValidationError (fst (update_title ''   '' 5 (example_task PENDING (PEnum MEDIUM) None)))
   \<and> snd (update_title ''   '' 5 (example_task PENDING (PEnum MEDIUM) None)) =
       example_task PENDING (PEnum MEDIUM) None
   \<and> length (replicate 201 CHR ''x'') > 200
   \<and> raised_ValidationError
       (fst (update_title (replicate 201 CHR ''x'') 5 (example_task PENDING (PEnum MEDIUM) None)))
   \<and> snd (update_title (replicate 201 CHR ''x'') 5 (example_task PENDING (PEnum MEDIUM) None)) =
       example_task PENDING (PEnum MEDIUM) None
   \<and> \<not> (strip ''Write spec'' = [] \<or> length ''Write spec'' > 200)
   \<and> update_title ''Write spec'' 5 (example_task PENDING (PEnum MEDIUM) None) =
       (Inr (), \<lparr>task_id = 1, title = ''Write spec'', description = [], status = PENDING,
                 priority = PEnum MEDIUM, created_at = 0, updated_at = 5, due_date = None\<rparr>)"
  using update_title_guard [where new_title = "''   ''" and now = 5
      and t = "example_task PENDING (PEnum MEDIUM) None"]
    update_title_guard [where new_title = "replicate 201 CHR ''x''" and now = 5
      and t = "example_task PENDING (PEnum MEDIUM) None"]
    update_title_guard [where new_title = "''Write spec''" and now = 5
      and t = "example_task PENDING (PEnum MEDIUM) None"]
  by (simp add: strip_blank strip_example)

subsection \<open>Queries\<close>







end
